theory Spec2Isabelle
  imports Main "HOL-Library.List_Lexorder" "HOL-Library.Char_ord"
begin

section \<open>The turn engine of game/engine.py\<close>

text \<open>
  The engine is modelled by explicit state passing. Time is an integer number of
  microseconds, the resolution of \<^verbatim>\<open>datetime.now()\<close>; the work the engine does
  between two statements takes no time in the model, except between the reads of the
  identity handshake of \<^verbatim>\<open>boot\<close>, where the pauses are given. Everything the
  engine prints, writes or starts is appended to a list of events. Calls into the master
  controller are opaque: the model keeps what the engine passes and reads, and a
  controller call neither raises nor changes a client record.
\<close>

subsection \<open>Data model\<close>

type_synonym action = string

text \<open>
  Modelled from the spec: class Player (game/common/player.py) is missing. A client has
  an identity, the functional flag, the optional last error and the last actions; the
  fields below are the attributes engine.py reads and assigns.
\<close>

record Player =
  player_id :: string
  functional :: bool
  error :: "string option"
  actions :: "action list"
  team_name :: "string option"
  file_name :: "string option"
  code :: "string option"

definition new_Player :: "string \<Rightarrow> Player" where
  "new_Player i =
     \<lparr>player_id = i, functional = True, error = None, actions = [],
      team_name = None, file_name = None, code = None\<rparr>"

text \<open>
  What a client's \<^verbatim>\<open>take_turn\<close> does in one tick: it returns a value (None or a list
  of actions) after some microseconds, raises after some microseconds, or never comes back.
\<close>

datatype turn = Returns int "action list option" | Raises int string | Hangs

text \<open>
  Modelled from the spec: class Thread (game/utils/thread.py) is missing. A unit runs one
  client's \<^verbatim>\<open>take_turn\<close>; once the call has returned the unit holds its result, once
  it has raised the unit holds the diagnostic, and until then the unit is alive and holds
  neither. The first argument of the three observers is the time since the launch.
\<close>

type_synonym Thread = turn

fun duration :: "Thread \<Rightarrow> int option" where
  "duration (Returns d r) = Some d"
| "duration (Raises d e) = Some d"
| "duration Hangs = None"

definition is_alive :: "int \<Rightarrow> Thread \<Rightarrow> bool" where
  "is_alive t thr = (case duration thr of None \<Rightarrow> True | Some d \<Rightarrow> t < d)"

fun thr_result :: "int \<Rightarrow> Thread \<Rightarrow> action list option" where
  "thr_result t (Returns d r) = (if t < d then None else r)"
| "thr_result t (Raises d e) = None"
| "thr_result t Hangs = None"

fun thr_error :: "int \<Rightarrow> Thread \<Rightarrow> string option" where
  "thr_error t (Raises d e) = (if t < d then None else Some e)"
| "thr_error t (Returns d r) = None"
| "thr_error t Hangs = None"

text \<open>
  \<^verbatim>\<open>thr.join(timeout)\<close> for a unit launched at \<open>start\<close>: the caller's clock after
  the call. It returns when the unit ends or when the timeout has passed.
\<close>

definition join :: "Thread \<Rightarrow> int \<Rightarrow> int \<Rightarrow> int \<Rightarrow> int" where
  "join thr start now timeout =
     (case duration thr of
        None \<Rightarrow> now + timeout
      | Some d \<Rightarrow> if start + d \<le> now then now else min (start + d) (now + timeout))"

subsection \<open>Engine.tick: launching and waiting\<close>

text \<open>The first loop of \<^verbatim>\<open>tick\<close>: one unit for each functional client, in client order.\<close>

definition make_threads :: "(string \<Rightarrow> turn) \<Rightarrow> Player list \<Rightarrow> Thread list" where
  "make_threads take_turn cs = map (\<lambda>c. take_turn (player_id c)) (filter functional cs)"

text \<open>\<^verbatim>\<open>datetime.now().microsecond\<close>: the part of the clock below one second.\<close>

definition microsecond :: "int \<Rightarrow> int" where
  "microsecond t = t mod 1000000"

text \<open>
  The waiting loop. \<open>B\<close> is \<^verbatim>\<open>MAX_SECONDS_PER_TURN\<close> in microseconds, so the
  division by 1000000 of the source is the change of unit.
\<close>

definition time_remaining :: "int \<Rightarrow> int \<Rightarrow> int \<Rightarrow> int" where
  "time_remaining B start now =
     (let time_elapsed = microsecond now - microsecond start
      in max 0 (B - time_elapsed))"

fun join_all :: "int \<Rightarrow> int \<Rightarrow> int \<Rightarrow> Thread list \<Rightarrow> int" where
  "join_all B start now [] = now"
| "join_all B start now (thr # thrs) =
     join_all B start (join thr start now (time_remaining B start now)) thrs"

subsection \<open>Engine.tick: collecting the outcomes\<close>

definition timeout_message :: "string \<Rightarrow> string" where
  "timeout_message i = i @ '' failed to reply in time and has been dropped.''"

text \<open>The body of the loop over \<^verbatim>\<open>zip(self.clients, threads)\<close>, at time \<open>t\<close> after launch.\<close>

definition record_outcome :: "int \<Rightarrow> Player \<Rightarrow> Thread \<Rightarrow> Player" where
  "record_outcome t client thr =
     (let c1 = client\<lparr>actions := (case thr_result t thr of Some r \<Rightarrow> r | None \<Rightarrow> [])\<rparr>;
          c2 = (if is_alive t thr
                then c1\<lparr>functional := False, error := Some (timeout_message (player_id c1))\<rparr>
                else c1);
          c3 = (if thr_error t thr \<noteq> None
                then c2\<lparr>functional := False, error := thr_error t thr\<rparr>
                else c2)
      in c3)"

text \<open>
  \<^verbatim>\<open>zip\<close> stops at the shorter list: the clients beyond the last unit are not visited
  and stay as they are.
\<close>

definition collect :: "int \<Rightarrow> Player list \<Rightarrow> Thread list \<Rightarrow> Player list" where
  "collect t cs thrs =
     map (\<lambda>(client, thr). record_outcome t client thr) (zip cs thrs) @ drop (length thrs) cs"

definition outcome_prints :: "int \<Rightarrow> Player \<Rightarrow> Thread \<Rightarrow> string list" where
  "outcome_prints t client thr =
     (if is_alive t thr then [timeout_message (player_id client)] else []) @
     (case thr_error t thr of Some e \<Rightarrow> [e] | None \<Rightarrow> [])"

definition collect_prints :: "int \<Rightarrow> Player list \<Rightarrow> Thread list \<Rightarrow> string list" where
  "collect_prints t cs thrs =
     concat (map (\<lambda>(client, thr). outcome_prints t client thr) (zip cs thrs))"

text \<open>The clients after the first half of \<^verbatim>\<open>tick\<close> (launch, wait, collect).\<close>

definition take_turns :: "int \<Rightarrow> (string \<Rightarrow> turn) \<Rightarrow> int \<Rightarrow> Player list \<Rightarrow> Player list" where
  "take_turns B take_turn start cs =
     (let threads = make_threads take_turn cs;
          now = join_all B start start threads
      in collect (now - start) cs threads)"

subsection \<open>Configuration, environment and engine state\<close>

text \<open>
  The constants of game/config.py that engine.py reads. \<open>MAX_SECONDS_PER_TURN\<close> is
  held in microseconds. A client-count setting of \<open>None\<close> selects the range mode.
\<close>

record config =
  SET_NUMBER_OF_CLIENTS_START :: "nat option"
  MIN_CLIENTS_START :: nat
  MAX_CLIENTS_START :: nat
  SET_NUMBER_OF_CLIENTS_CONTINUE :: "nat option"
  MIN_CLIENTS_CONTINUE :: nat
  MAX_CLIENTS_CONTINUE :: nat
  MAX_TICKS :: nat
  MAX_SECONDS_PER_TURN :: int

datatype exn = IndexError | FileNotFoundError string | TypeError | AttributeError string

fun str_exn :: "exn \<Rightarrow> string" where
  "str_exn IndexError = ''list index out of range''"
| "str_exn (FileNotFoundError m) = m"
| "str_exn TypeError = ''not supported between instances''"
| "str_exn (AttributeError m) = m"

text \<open>
  How a statement ends: normally, with an exception travelling upwards, or with the
  process terminated by \<^verbatim>\<open>os._exit\<close>.
\<close>

datatype status = Normal | Raised exn | Exited nat

text \<open>What the engine hands to the controller: one client or the whole list.\<close>

datatype target = One Player | All "Player list"

datatype path = LOGS_FILE | RESULTS_FILE | TURN_FILE nat

datatype content =
    Game_logs
  | Results target nat "string option"
  | Turn_log target nat

datatype event =
    Write path content
  | Spawn_write path content
  | Print string
  | Flush
  | Verify_code string
  | Import_module string
  | Instantiate string
  | Call_team_name string
  | Start_turn string

record world =
  clients :: "Player list"
  tick_number :: nat
  events :: "event list"

definition init_world :: world where
  "init_world = \<lparr>clients = [], tick_number = 0, events = []\<rparr>"

definition emit :: "world \<Rightarrow> event list \<Rightarrow> world" where
  "emit w es = w\<lparr>events := events w @ es\<rparr>"

definition and_then :: "status \<times> world \<Rightarrow> (world \<Rightarrow> status \<times> world) \<Rightarrow> status \<times> world" where
  "and_then r f = (case r of (Normal, w) \<Rightarrow> f w | (st, w) \<Rightarrow> (st, w))"

text \<open>
  The argument of every controller call:
  \<^verbatim>\<open>self.clients[0]\<close> when \<^verbatim>\<open>SET_NUMBER_OF_CLIENTS_START == 1\<close>, else the list.
  Indexing an empty list raises.
\<close>

definition controller_arg :: "config \<Rightarrow> Player list \<Rightarrow> exn + target" where
  "controller_arg cfg cs =
     (if SET_NUMBER_OF_CLIENTS_START cfg = Some 1
      then (case cs of [] \<Rightarrow> Inl IndexError | c # _ \<Rightarrow> Inr (One c))
      else Inr (All cs))"

datatype violation = Not_exact nat nat | Out_of_range nat

text \<open>
  Modelled from the spec: \<^verbatim>\<open>verify_num_clients\<close> (game/utils/validation.py) is missing.
  The live count must equal the configured count in exact mode and lie in
  \<open>[min, max]\<close> in range mode; the result is a violation reason or none.
\<close>

definition verify_num_clients ::
  "Player list \<Rightarrow> nat option \<Rightarrow> nat \<Rightarrow> nat \<Rightarrow> violation option" where
  "verify_num_clients cs set_clients min_clients max_clients =
     (case set_clients of
        Some n \<Rightarrow> if length cs = n then None else Some (Not_exact (length cs) n)
      | None \<Rightarrow>
          if min_clients \<le> length cs \<and> length cs \<le> max_clients then None
          else Some (Out_of_range (length cs)))"

subsection \<open>Engine.shutdown\<close>

definition nl :: string where
  "nl = [CHR 0x0A]"

text \<open>Python's \<^verbatim>\<open>if source:\<close>: None and the empty string are false.\<close>

fun truthy :: "string option \<Rightarrow> bool" where
  "truthy None = False"
| "truthy (Some s) = (s \<noteq> [])"

definition error_output :: "Player list \<Rightarrow> string" where
  "error_output cs =
     nl @ concat (map (\<lambda>client. case error client of None \<Rightarrow> [] | Some e \<Rightarrow> e @ nl) cs)"

definition ended_message :: "string \<Rightarrow> string \<Rightarrow> string" where
  "ended_message source output =
     nl @ ''Game has ended due to '' @ source @ '': ['' @ output @ ''].''"

definition shutdown :: "config \<Rightarrow> string option \<Rightarrow> world \<Rightarrow> status \<times> world" where
  "shutdown cfg source w =
     (let w1 = emit w [Write LOGS_FILE Game_logs]
      in case controller_arg cfg (clients w1) of
           Inl e \<Rightarrow> (Raised e, w1)
         | Inr a \<Rightarrow>
             (let results_information =
                    Results a (tick_number w1) (if truthy source then source else None);
                  w2 = emit w1 [Write RESULTS_FILE results_information]
              in if truthy source
                 then (Exited 1,
                       emit w2 [Print (ended_message (the source) (error_output (clients w2))),
                                Flush])
                 else (Normal,
                       emit w2 [Print (nl @ ''Game has successfully ended.''), Flush])))"

subsection \<open>Engine.boot\<close>

text \<open>
  What a client's \<^verbatim>\<open>team_name\<close> does when the identity unit calls it: it returns
  after some microseconds (the second argument is the value the unit then holds: the
  string returned, or none when the value is not a string), it raises after some
  microseconds, or it never comes back.
\<close>

datatype reply = Replies int "string option" | Fails int string | Silent

text \<open>
  Modelled from the spec: class \<^verbatim>\<open>CommunicationThread\<close> (game/utils/thread.py) is
  missing. The unit runs the call; it keeps running while boot goes on, so each read that
  boot makes sees the unit as it is at the moment of that read. The first argument of the
  three observers is the time since the unit was started: until the call has ended the
  unit is alive and holds neither a value nor an error.
\<close>

type_synonym CommunicationThread = reply

fun comm_duration :: "CommunicationThread \<Rightarrow> int option" where
  "comm_duration (Replies d v) = Some d"
| "comm_duration (Fails d e) = Some d"
| "comm_duration Silent = None"

definition comm_is_alive :: "int \<Rightarrow> CommunicationThread \<Rightarrow> bool" where
  "comm_is_alive t thr = (case comm_duration thr of None \<Rightarrow> True | Some d \<Rightarrow> t < d)"

fun comm_error :: "int \<Rightarrow> CommunicationThread \<Rightarrow> string option" where
  "comm_error t (Fails d e) = (if t < d then None else Some e)"
| "comm_error t (Replies d v) = None"
| "comm_error t Silent = None"

fun retrieve_value :: "int \<Rightarrow> CommunicationThread \<Rightarrow> string option" where
  "retrieve_value t (Replies d v) = (if t < d then None else v)"
| "retrieve_value t (Fails d e) = None"
| "retrieve_value t Silent = None"

text \<open>
  \<^verbatim>\<open>thr.join(timeout)\<close> right after \<^verbatim>\<open>thr.start()\<close>: the time since the start at
  which the wait ends, when the unit ends or when the timeout has passed.
\<close>

definition comm_join :: "CommunicationThread \<Rightarrow> int \<Rightarrow> int" where
  "comm_join thr timeout =
     (case comm_duration thr of
        None \<Rightarrow> timeout
      | Some d \<Rightarrow> if d \<le> 0 then 0 else min d timeout)"

datatype import_outcome = Loaded | Import_failed string | Client_failed string

text \<open>
  One entry of \<^verbatim>\<open>os.listdir(CLIENT_DIRECTORY)\<close> with what the outside world answers
  for it: the name without \<^verbatim>\<open>.py\<close>, whether the name contains the client keyword,
  whether it is a folder, the id the Player constructor gives, the result of
  \<^verbatim>\<open>verify_code\<close> (imports, opening, printing), what importing the module and calling
  \<^verbatim>\<open>Client()\<close> do (a failure carries the traceback text), the identity unit
  (\<open>Inl\<close> when building it raises, so that \<^verbatim>\<open>thr\<close> stays None), and the pauses in
  microseconds that the main thread makes before each of its three reads of the unit:
  before \<^verbatim>\<open>thr.is_alive()\<close> (line 112), before \<^verbatim>\<open>thr.error\<close> (line 116) and
  before \<^verbatim>\<open>thr.retrieve_value()\<close> (line 123).
\<close>

record client_file =
  filename :: string
  has_keyword :: bool
  is_dir :: bool
  new_id :: string
  verify_code :: "string list \<times> bool \<times> bool"
  import_module :: import_outcome
  team_name_unit :: "exn + CommunicationThread"
  read_pauses :: "nat \<times> nat \<times> nat"

text \<open>Python's \<^verbatim>\<open>repr\<close> of a list of names, as the f-string prints \<^verbatim>\<open>imports\<close>.\<close>

fun join_names :: "string list \<Rightarrow> string" where
  "join_names [] = []"
| "join_names [x] = [CHR 0x27] @ x @ [CHR 0x27]"
| "join_names (x # xs) = [CHR 0x27] @ x @ [CHR 0x27] @ '', '' @ join_names xs"

definition py_repr :: "string list \<Rightarrow> string" where
  "py_repr xs = ''['' @ join_names xs @ '']''"

definition illegal_imports_message :: "string list \<Rightarrow> string" where
  "illegal_imports_message imports =
     ''Player has attempted illegal imports: '' @ py_repr imports"

definition open_message :: string where
  "open_message = ''Player is using '' @ [CHR 0x22] @ ''open'' @ [CHR 0x22] @ '' which is forbidden.''"

text \<open>Lines 84 to 91: the two checks on the result of \<^verbatim>\<open>verify_code\<close>.\<close>

definition validate :: "client_file \<Rightarrow> Player \<Rightarrow> Player" where
  "validate f player =
     (case verify_code f of (imports, opening, printing) \<Rightarrow>
        (let p1 = (if length imports \<noteq> 0
                   then player\<lparr>functional := False,
                               error := Some (illegal_imports_message imports)\<rparr>
                   else player);
             p2 = (if opening
                   then p1\<lparr>functional := False, error := Some open_message\<rparr>
                   else p1)
         in p2))"

definition no_team_name_message :: string where
  "no_team_name_message = ''Client failed to provide a team name in time.''"

definition none_has_no_retrieve_value :: exn where
  "none_has_no_retrieve_value =
     AttributeError (([CHR 0x27] @ ''NoneType'' @ [CHR 0x27]) @ '' object has no attribute '' @
                     ([CHR 0x27] @ ''retrieve_value'' @ [CHR 0x27]))"

text \<open>
  The moments, in time since the unit was started, of the three reads of the handshake:
  \<^verbatim>\<open>thr.join(0.01)\<close> ends, then \<^verbatim>\<open>thr.is_alive()\<close> is read, then
  \<^verbatim>\<open>thr.error\<close>, then \<^verbatim>\<open>thr.retrieve_value()\<close>.
\<close>

definition alive_read :: "client_file \<Rightarrow> CommunicationThread \<Rightarrow> int" where
  "alive_read f thr = (case read_pauses f of (a, b, c) \<Rightarrow> comm_join thr 10000 + int a)"

definition error_read :: "client_file \<Rightarrow> CommunicationThread \<Rightarrow> int" where
  "error_read f thr = (case read_pauses f of (a, b, c) \<Rightarrow> alive_read f thr + int b)"

definition value_read :: "client_file \<Rightarrow> CommunicationThread \<Rightarrow> int" where
  "value_read f thr = (case read_pauses f of (a, b, c) \<Rightarrow> error_read f thr + int c)"

text \<open>
  Lines 105 to 126: the identity handshake with its \<^verbatim>\<open>finally\<close> block, which
  assigns the name whatever the two checks found. The first component is the exception
  that leaves the block, if any.
\<close>

definition identify :: "client_file \<Rightarrow> Player \<Rightarrow> exn option \<times> Player" where
  "identify f player =
     (case team_name_unit f of
        Inr thr \<Rightarrow>
          (let p1 = (if comm_is_alive (alive_read f thr) thr
                     then player\<lparr>functional := False, error := Some no_team_name_message\<rparr>
                     else player);
               p2 = (if comm_error (error_read f thr) thr \<noteq> None
                     then p1\<lparr>functional := False, error := comm_error (error_read f thr) thr\<rparr>
                     else p1);
               p3 = p2\<lparr>file_name := Some (filename f),
                        team_name := retrieve_value (value_read f thr) thr\<rparr>
           in (None, p3))
      | Inl e \<Rightarrow>
          (let p1 = player\<lparr>file_name := Some (filename f)\<rparr>;
               p2 = p1\<lparr>functional := False,
                        error := Some (str_exn none_has_no_retrieve_value @ nl @ ''None'')\<rparr>
           in (Some e, p2)))"

text \<open>
  The body of the loop over the directory, statement by statement. The result is None
  when the entry is filtered out; otherwise it is the record created for the entry, in
  its state at the end of the iteration, together with what the iteration does to the
  outside, in order, each action paired with the state of the record at the moment of
  the action.
\<close>

type_synonym moment = "event \<times> Player"

definition boot_client :: "client_file \<Rightarrow> (Player \<times> moment list) option" where
  "boot_client f =
     (if \<not> has_keyword f then None
      else if is_dir f then None
      else
        (let p0 = new_Player (new_id f);
             m1 = (Verify_code (filename f @ ''.py''), p0);
             p1 = validate f p0;
             m2 = (Import_module (filename f), p1);
             m3 = (Instantiate (filename f), p1)
         in case import_module f of
              Import_failed tb \<Rightarrow>
                Some (p1\<lparr>functional := False, error := Some tb\<rparr>, [m1, m2])
            | Client_failed tb \<Rightarrow>
                Some (p1\<lparr>functional := False, error := Some tb\<rparr>, [m1, m2, m3])
            | Loaded \<Rightarrow>
                (let p2 = p1\<lparr>code := Some (filename f)\<rparr>
                 in case identify f p2 of
                      (None, p3) \<Rightarrow>
                        Some (p3, [m1, m2, m3, (Call_team_name (filename f), p2)])
                    | (Some e, p3) \<Rightarrow>
                        Some (p3\<lparr>functional := False\<rparr>,
                              [m1, m2, m3,
                               (Print (''Bad client for '' @ filename f @
                                       '': exception: '' @ str_exn e), p3),
                               (Print ''None'', p3)]))))"

text \<open>The record that the iteration leaves in \<^verbatim>\<open>self.clients\<close>.\<close>

definition boot_player :: "client_file \<Rightarrow> Player option" where
  "boot_player f = map_option fst (boot_client f)"

text \<open>The actions of the iteration on the outside.\<close>

definition boot_trace :: "client_file \<Rightarrow> event list" where
  "boot_trace f = (case boot_client f of None \<Rightarrow> [] | Some (p, ms) \<Rightarrow> map fst ms)"

text \<open>
  \<^verbatim>\<open>self.clients.sort(key=lambda clnt: clnt.team_name, reverse=True)\<close>: a stable sort,
  descending. With two or more clients every key is compared, and comparing None raises.
\<close>

definition sort_clients :: "Player list \<Rightarrow> exn + Player list" where
  "sort_clients cs =
     (if length cs \<le> 1 then Inr cs
      else if list_ex (\<lambda>c. team_name c = None) cs then Inl TypeError
      else Inr (rev (sort_key (\<lambda>c. the (team_name c)) (rev cs))))"

definition boot :: "config \<Rightarrow> client_file list \<Rightarrow> world \<Rightarrow> status \<times> world" where
  "boot cfg files w =
     (let w1 = w\<lparr>clients := clients w @ List.map_filter boot_player files,
                  events := events w @ concat (map boot_trace files)\<rparr>;
          func_clients = filter functional (clients w1);
          client_num_correct =
            verify_num_clients func_clients (SET_NUMBER_OF_CLIENTS_START cfg)
              (MIN_CLIENTS_START cfg) (MAX_CLIENTS_START cfg)
      in if client_num_correct \<noteq> None
         then shutdown cfg (Some ''Client_error'') w1
         else (case sort_clients (clients w1) of
                 Inl e \<Rightarrow> (Raised e, w1)
               | Inr cs \<Rightarrow>
                   (let w2 = w1\<lparr>clients := cs\<rparr>
                    in case controller_arg cfg (clients w2) of
                         Inl e \<Rightarrow> (Raised e, w2)
                       | Inr a \<Rightarrow> (Normal, w2))))"

subsection \<open>The game loop\<close>

text \<open>
  What the outside world answers during one run: whether the log directory and the map
  file exist, the entries of the client directory, how many world keys the controller's
  generator yields (a generator that never ends is any number from \<open>MAX_TICKS\<close> on),
  the clock at which the units of a tick are launched, what each client's
  \<^verbatim>\<open>take_turn\<close> does in each tick, and the controller's \<^verbatim>\<open>game_over\<close> flag as
  \<^verbatim>\<open>post_tick\<close> reads it in each tick.
\<close>

record env =
  logs_dir_exists :: bool
  game_map_exists :: bool
  client_files :: "client_file list"
  world_keys :: nat
  launch_time :: "nat \<Rightarrow> int"
  take_turn :: "nat \<Rightarrow> string \<Rightarrow> turn"
  game_over :: "nat \<Rightarrow> bool"

definition load :: "env \<Rightarrow> world \<Rightarrow> status \<times> world" where
  "load en w =
     (if \<not> logs_dir_exists en then (Raised (FileNotFoundError ''Log directory not found.''), w)
      else if \<not> game_map_exists en then (Raised (FileNotFoundError ''Game map not found.''), w)
      else (Normal, w))"

definition pre_tick :: "config \<Rightarrow> world \<Rightarrow> status \<times> world" where
  "pre_tick cfg w =
     (let w1 = w\<lparr>tick_number := tick_number w + 1\<rparr>
      in case controller_arg cfg (clients w1) of
           Inl e \<Rightarrow> (Raised e, w1)
         | Inr a \<Rightarrow> (Normal, w1))"

definition tick :: "config \<Rightarrow> env \<Rightarrow> world \<Rightarrow> status \<times> world" where
  "tick cfg en w =
     (let threads = make_threads (take_turn en (tick_number w)) (clients w);
          start_time = launch_time en (tick_number w);
          now = join_all (MAX_SECONDS_PER_TURN cfg) start_time start_time threads;
          w1 = w\<lparr>clients := collect (now - start_time) (clients w) threads,
                  events := events w @
                    map (\<lambda>c. Start_turn (player_id c)) (filter functional (clients w)) @
                    map Print (collect_prints (now - start_time) (clients w) threads)\<rparr>;
          func_clients = filter functional (clients w1);
          client_num_correct =
            verify_num_clients func_clients (SET_NUMBER_OF_CLIENTS_CONTINUE cfg)
              (MIN_CLIENTS_CONTINUE cfg) (MAX_CLIENTS_CONTINUE cfg)
      in and_then
           (if client_num_correct \<noteq> None
            then shutdown cfg (Some ''Client_error'') w1
            else (Normal, w1))
           (\<lambda>w2. case controller_arg cfg (clients w2) of
                    Inl e \<Rightarrow> (Raised e, w2)
                  | Inr a \<Rightarrow> (Normal, w2)))"

definition post_tick :: "config \<Rightarrow> env \<Rightarrow> world \<Rightarrow> status \<times> world" where
  "post_tick cfg en w =
     (case controller_arg cfg (clients w) of
        Inl e \<Rightarrow> (Raised e, w)
      | Inr a \<Rightarrow>
          (let w1 = emit w [Spawn_write (TURN_FILE (tick_number w)) (Turn_log a (tick_number w))]
           in if game_over en (tick_number w1) then shutdown cfg None w1 else (Normal, w1)))"

text \<open>
  The \<^verbatim>\<open>for\<close> loop of \<^verbatim>\<open>loop\<close>; the first argument counts the world keys that the
  generator still yields.
\<close>

fun run_ticks :: "nat \<Rightarrow> config \<Rightarrow> env \<Rightarrow> world \<Rightarrow> status \<times> world" where
  "run_ticks 0 cfg en w = (Normal, w)"
| "run_ticks (Suc k) cfg en w =
     and_then (and_then (and_then (pre_tick cfg w) (tick cfg en)) (post_tick cfg en))
       (\<lambda>w'. if MAX_TICKS cfg \<le> tick_number w' then (Normal, w') else run_ticks k cfg en w')"

text \<open>The \<^verbatim>\<open>try\<close> block of \<^verbatim>\<open>loop\<close>.\<close>

definition loop_body :: "config \<Rightarrow> env \<Rightarrow> world \<Rightarrow> status \<times> world" where
  "loop_body cfg en w =
     and_then (and_then (load en w) (boot cfg (client_files en)))
       (run_ticks (world_keys en) cfg en)"

text \<open>
  \<^verbatim>\<open>loop\<close>: \<^verbatim>\<open>os._exit\<close> ends the process at once, so neither handler runs after it;
  an exception is printed and then the \<^verbatim>\<open>finally\<close> clause runs \<^verbatim>\<open>shutdown()\<close>.
\<close>

definition loop :: "config \<Rightarrow> env \<Rightarrow> world \<Rightarrow> status \<times> world" where
  "loop cfg en w =
     (case loop_body cfg en w of
        (Exited n, w') \<Rightarrow> (Exited n, w')
      | (Raised e, w') \<Rightarrow>
          shutdown cfg None
            (emit w' [Print (''Exception raised during runtime: '' @ str_exn e), Print ''None''])
      | (Normal, w') \<Rightarrow> shutdown cfg None w')"

text \<open>How often \<^verbatim>\<open>shutdown\<close> was entered: its first statement writes the log file.\<close>

definition shutdown_runs :: "world \<Rightarrow> nat" where
  "shutdown_runs w = length (filter (\<lambda>e. e = Write LOGS_FILE Game_logs) (events w))"

subsection \<open>Predicates of the properties\<close>

text \<open>
  Position by position, a client that is functional afterwards was functional before:
  no flag went from false to true.
\<close>

definition flags_only_fall :: "Player list \<Rightarrow> Player list \<Rightarrow> bool" where
  "flags_only_fall cs cs' = list_all2 (\<lambda>c c'. functional c' \<longrightarrow> functional c) cs cs'"

text \<open>
  The account of the runs of \<^verbatim>\<open>shutdown\<close> over a step that starts in \<open>w\<close> and
  ends in \<open>r\<close>: a step that ends the process has run it once and any other step has not
  run it.
\<close>

definition once :: "world \<Rightarrow> status \<times> world \<Rightarrow> bool" where
  "once w r =
     (case fst r of
        Exited n \<Rightarrow> shutdown_runs (snd r) = shutdown_runs w + 1
      | _ \<Rightarrow> shutdown_runs (snd r) = shutdown_runs w)"

text \<open>The list can be indexed at 0 wherever the single-client setting asks for it.\<close>

definition indexable :: "config \<Rightarrow> Player list \<Rightarrow> bool" where
  "indexable cfg cs = (SET_NUMBER_OF_CLIENTS_START cfg = Some 1 \<longrightarrow> cs \<noteq> [])"

subsection \<open>Concrete runs\<close>

text \<open>Two clients that load and give their names; \<open>zed\<close> sorts before \<open>amy\<close>.\<close>

definition zed_file :: client_file where
  "zed_file =
     \<lparr>filename = ''zed_client'', has_keyword = True, is_dir = False, new_id = ''Z'',
      verify_code = ([], False, False), import_module = Loaded,
      team_name_unit = Inr (Replies 50 (Some ''zed'')), read_pauses = (0, 0, 0)\<rparr>"

definition amy_file :: client_file where
  "amy_file =
     \<lparr>filename = ''amy_client'', has_keyword = True, is_dir = False, new_id = ''A'',
      verify_code = ([], False, False), import_module = Loaded,
      team_name_unit = Inr (Replies 50 (Some ''amy'')), read_pauses = (0, 0, 0)\<rparr>"

text \<open>One or two clients may play, a turn lasts at most one second, the game two ticks.\<close>

definition range_cfg :: config where
  "range_cfg =
     \<lparr>SET_NUMBER_OF_CLIENTS_START = None, MIN_CLIENTS_START = 1, MAX_CLIENTS_START = 2,
      SET_NUMBER_OF_CLIENTS_CONTINUE = None, MIN_CLIENTS_CONTINUE = 1,
      MAX_CLIENTS_CONTINUE = 2, MAX_TICKS = 2, MAX_SECONDS_PER_TURN = 1000000\<rparr>"

text \<open>
  Client Z never answers; client A answers after 100 microseconds, with \<open>move\<close> in the
  first tick and \<open>build\<close> afterwards.
\<close>

definition two_tick_env :: env where
  "two_tick_env =
     \<lparr>logs_dir_exists = True, game_map_exists = True,
      client_files = [amy_file, zed_file], world_keys = 2, launch_time = (\<lambda>n. 0),
      take_turn = (\<lambda>n i. if i = ''Z'' then Hangs
                          else if n = 1 then Returns 100 (Some [''move''])
                          else Returns 100 (Some [''build''])),
      game_over = (\<lambda>n. False)\<rparr>"

text \<open>The engine at the start of a second tick, after Z was dropped in the first.\<close>

definition dropped_first :: world where
  "dropped_first =
     \<lparr>clients = [(new_Player ''Z'')\<lparr>functional := False,
                                     error := Some (timeout_message ''Z'')\<rparr>,
                 new_Player ''A''],
      tick_number = 2, events = []\<rparr>"

text \<open>The same game with a client A that never answers either.\<close>

definition stall_env :: env where
  "stall_env = two_tick_env\<lparr>take_turn := (\<lambda>n i. Hangs)\<rparr>"

text \<open>Exactly one client is required, and the client directory holds none.\<close>

definition single_cfg :: config where
  "single_cfg =
     \<lparr>SET_NUMBER_OF_CLIENTS_START = Some 1, MIN_CLIENTS_START = 1, MAX_CLIENTS_START = 1,
      SET_NUMBER_OF_CLIENTS_CONTINUE = Some 1, MIN_CLIENTS_CONTINUE = 1,
      MAX_CLIENTS_CONTINUE = 1, MAX_TICKS = 2, MAX_SECONDS_PER_TURN = 1000000\<rparr>"

definition empty_env :: env where
  "empty_env = two_tick_env\<lparr>client_files := []\<rparr>"

text \<open>A game of client A alone that the controller declares over in the first tick.\<close>

definition short_game_env :: env where
  "short_game_env =
     two_tick_env\<lparr>client_files := [amy_file], world_keys := 1, game_over := (\<lambda>n. True)\<rparr>"

text \<open>A client whose source imports \<open>os\<close>, and one whose \<open>team_name\<close> never returns.\<close>

definition os_file :: client_file where
  "os_file = amy_file\<lparr>verify_code := ([''os''], False, False)\<rparr>"

definition slow_file :: client_file where
  "slow_file = amy_file\<lparr>team_name_unit := Inr Silent\<rparr>"

text \<open>
  A client whose \<open>team_name\<close> returns after 10500 microseconds, while boot reads the
  name 1000 microseconds after it has checked the unit.
\<close>

definition late_file :: client_file where
  "late_file =
     amy_file\<lparr>team_name_unit := Inr (Replies 10500 (Some ''amy'')), read_pauses := (0, 0, 1000)\<rparr>"

text \<open>The game that is over in the first tick, with a generator that yields two world keys.\<close>

definition played_on_env :: env where
  "played_on_env = short_game_env\<lparr>world_keys := 2\<rparr>"

section \<open>Properties\<close>

subsection \<open>The waiting loop\<close>

lemma join_all_hang:
  "microsecond now = microsecond start \<Longrightarrow>
   join_all 1000000 start now (replicate n Hangs) = now + int n * 1000000"
proof (induction n arbitrary: now)
  case 0
  show ?case by simp
next
  case (Suc n)
  have rem: "time_remaining 1000000 start now = 1000000"
    using Suc.prems by (simp add: time_remaining_def)
  have same: "microsecond (now + 1000000) = microsecond start"
    using Suc.prems by (simp add: microsecond_def)
  have "join_all 1000000 start now (replicate (Suc n) Hangs)
        = join_all 1000000 start (now + 1000000) (replicate n Hangs)"
    by (simp add: join_def rem)
  also have "\<dots> = now + 1000000 + int n * 1000000"
    by (rule Suc.IH [OF same])
  finally show ?case by simp
qed

text \<open>
  C1 (the waiting phase of a tick lasts at most the budget, whatever the number of clients
  and the moment of the launch) fails on the code. The elapsed time is the difference of
  the two sub-second parts of the clock. With a budget of one second and \<open>n\<close> clients
  that never answer, every join waits the full second, so the phase lasts \<open>n\<close> seconds.
  With a budget of 0.1 seconds and a launch 0.95 seconds into a second, the second
  boundary is crossed during the first join and three such clients are waited for during
  2.1 seconds.
\<close>

theorem waiting_phase_exceeds_budget:
  "join_all 1000000 start start (replicate n Hangs) - start = int n * 1000000 \<and>
   join_all 100000 950000 950000 [Hangs, Hangs, Hangs] - 950000 = 2100000"
  by (simp add: join_all_hang join_def time_remaining_def microsecond_def)

subsection \<open>Attribution of the outcomes\<close>

text \<open>
  C2 (every client is given the outcome of its own unit, also when some clients have no
  unit) fails on the code: the units of the functional clients are zipped with the list of
  all clients. In the run \<open>two_tick_env\<close> client Z is dropped in the first tick; in
  the second tick the only unit is A's, it returns \<open>build\<close>, and the result is stored
  on Z while A keeps the \<open>move\<close> of the first tick.
\<close>

theorem result_stored_on_dropped_client:
  "map player_id (clients (snd (loop range_cfg two_tick_env init_world))) = [''Z'', ''A''] \<and>
   map functional (clients (snd (loop range_cfg two_tick_env init_world))) = [False, True] \<and>
   map actions (clients (snd (loop range_cfg two_tick_env init_world))) =
     [[''build''], [''move'']]"
  by code_simp

text \<open>
  C3 (a client that is not functional at the start of a tick gets no unit and ends the tick
  with no actions) fails on the code in its second half, by the same pairing of units and
  clients: Z starts the tick dropped, only A gets a unit, and Z ends the tick holding A's
  actions.
\<close>

theorem dropped_client_ends_with_actions:
  "map functional (clients dropped_first) = [False, True] \<and>
   make_threads (take_turn two_tick_env 2) (clients dropped_first) =
     [Returns 100 (Some [''build''])] \<and>
   map actions (clients (snd (tick range_cfg two_tick_env dropped_first))) =
     [[''build''], []]"
  by code_simp

text \<open>
  C7 (a client whose unit is still running when the wait ends is marked non-functional
  with a message naming it) fails on the code, again by the pairing: A's unit never ends,
  but the timeout is recorded on Z, and A stays functional without an error.
\<close>

theorem timeout_recorded_on_other_client:
  "take_turn stall_env 2 ''A'' = Hangs \<and>
   map player_id (clients (snd (tick range_cfg stall_env dropped_first))) = [''Z'', ''A''] \<and>
   map functional (clients (snd (tick range_cfg stall_env dropped_first))) = [False, True] \<and>
   map error (clients (snd (tick range_cfg stall_env dropped_first))) =
     [Some ''Z failed to reply in time and has been dropped.'', None]"
  by code_simp

subsection \<open>The functional flag\<close>

lemma record_outcome_functional: "functional (record_outcome t c thr) \<Longrightarrow> functional c"
  by (simp add: record_outcome_def Let_def split: if_splits)

lemma make_threads_length: "length (make_threads tt cs) \<le> length cs"
  by (simp add: make_threads_def)

lemma collect_length: "length thrs \<le> length cs \<Longrightarrow> length (collect t cs thrs) = length cs"
  by (simp add: collect_def)

lemma collect_nth:
  "i < length cs \<Longrightarrow> length thrs \<le> length cs \<Longrightarrow>
   collect t cs thrs ! i =
     (if i < length thrs then record_outcome t (cs ! i) (thrs ! i) else cs ! i)"
  by (simp add: collect_def nth_append)

lemma flags_only_fall_refl: "flags_only_fall cs cs"
  by (simp add: flags_only_fall_def list_all2_conv_all_nth)

lemma flags_only_fall_trans:
  "flags_only_fall cs cs' \<Longrightarrow> flags_only_fall cs' cs'' \<Longrightarrow> flags_only_fall cs cs''"
  by (simp add: flags_only_fall_def list_all2_conv_all_nth)

lemma take_turns_flags: "flags_only_fall cs (take_turns B tt s cs)"
  by (auto simp: flags_only_fall_def list_all2_conv_all_nth take_turns_def Let_def
      collect_length collect_nth make_threads_length
      dest: record_outcome_functional split: if_splits)

lemma shutdown_clients: "clients (snd (shutdown cfg source w)) = clients w"
  by (simp add: shutdown_def emit_def Let_def split: sum.splits)

lemma and_then_clients:
  assumes "\<And>w'. clients (snd (f w')) = clients w'"
  shows "clients (snd (and_then r f)) = clients (snd r)"
  using assms by (cases r) (simp add: and_then_def split: status.splits)

lemma tick_clients:
  "clients (snd (tick cfg en w)) =
   take_turns (MAX_SECONDS_PER_TURN cfg) (take_turn en (tick_number w))
     (launch_time en (tick_number w)) (clients w)"
proof -
  have arg: "\<And>w'. clients (snd (case controller_arg cfg (clients w') of
                 Inl e \<Rightarrow> (Raised e, w') | Inr a \<Rightarrow> (Normal, w'))) = clients w'"
    by (simp split: sum.splits)
  show ?thesis
    unfolding tick_def Let_def
    by (simp add: and_then_clients [where f = "\<lambda>w2. case controller_arg cfg (clients w2) of
                 Inl e \<Rightarrow> (Raised e, w2) | Inr a \<Rightarrow> (Normal, w2)", OF arg]
        shutdown_clients take_turns_def Let_def)
qed

lemma pre_tick_clients: "clients (snd (pre_tick cfg w)) = clients w"
  by (simp add: pre_tick_def Let_def split: sum.splits)

lemma post_tick_clients: "clients (snd (post_tick cfg en w)) = clients w"
  by (simp add: post_tick_def Let_def emit_def shutdown_clients split: sum.splits)

lemma tick_flags: "flags_only_fall (clients w) (clients (snd (tick cfg en w)))"
  by (simp add: tick_clients take_turns_flags)

lemma and_then_flags:
  assumes "\<And>w'. flags_only_fall (clients w') (clients (snd (f w')))"
  shows "flags_only_fall (clients (snd r)) (clients (snd (and_then r f)))"
  using assms by (cases r) (simp add: and_then_def flags_only_fall_refl split: status.splits)

lemma run_ticks_flags: "flags_only_fall (clients w) (clients (snd (run_ticks k cfg en w)))"
proof (induction k arbitrary: w)
  case 0
  show ?case by (simp add: flags_only_fall_refl)
next
  case (Suc k)
  let ?r1 = "pre_tick cfg w"
  let ?r2 = "and_then ?r1 (tick cfg en)"
  let ?r3 = "and_then ?r2 (post_tick cfg en)"
  let ?rest = "\<lambda>w'. if MAX_TICKS cfg \<le> tick_number w' then (Normal, w')
                      else run_ticks k cfg en w'"
  have s1: "flags_only_fall (clients w) (clients (snd ?r1))"
    by (simp add: pre_tick_clients flags_only_fall_refl)
  have s2: "flags_only_fall (clients (snd ?r1)) (clients (snd ?r2))"
    by (rule and_then_flags) (rule tick_flags)
  have s3: "flags_only_fall (clients (snd ?r2)) (clients (snd ?r3))"
    by (rule and_then_flags) (simp add: post_tick_clients flags_only_fall_refl)
  have s4: "flags_only_fall (clients (snd ?r3)) (clients (snd (and_then ?r3 ?rest)))"
    by (rule and_then_flags) (simp add: Suc.IH flags_only_fall_refl)
  have "flags_only_fall (clients w) (clients (snd (and_then ?r3 ?rest)))"
    using s1 s2 s3 s4 by (blast intro: flags_only_fall_trans)
  then show ?case by simp
qed

lemma validate_functional: "functional (validate f p) \<Longrightarrow> functional p"
  by (simp add: validate_def Let_def split: prod.splits if_splits)

lemma identify_functional: "functional (snd (identify f p)) \<Longrightarrow> functional p"
  by (simp add: identify_def Let_def split: sum.splits if_splits)

lemma boot_player_eq:
  "boot_player f =
     (if \<not> has_keyword f then None
      else if is_dir f then None
      else
        (let player = validate f (new_Player (new_id f))
         in case import_module f of
              Import_failed tb \<Rightarrow> Some (player\<lparr>functional := False, error := Some tb\<rparr>)
            | Client_failed tb \<Rightarrow> Some (player\<lparr>functional := False, error := Some tb\<rparr>)
            | Loaded \<Rightarrow>
                (case identify f (player\<lparr>code := Some (filename f)\<rparr>) of
                   (None, p) \<Rightarrow> Some p
                 | (Some e, p) \<Rightarrow> Some (p\<lparr>functional := False\<rparr>))))"
  by (simp add: boot_player_def boot_client_def Let_def
      split: import_outcome.splits prod.splits option.splits)

lemma boot_trace_eq:
  "boot_trace f =
     (if \<not> has_keyword f then []
      else if is_dir f then []
      else
        [Verify_code (filename f @ ''.py''), Import_module (filename f)] @
        (case import_module f of
           Import_failed tb \<Rightarrow> []
         | Client_failed tb \<Rightarrow> [Instantiate (filename f)]
         | Loaded \<Rightarrow>
             [Instantiate (filename f)] @
             (case team_name_unit f of
                Inr thr \<Rightarrow> [Call_team_name (filename f)]
              | Inl e \<Rightarrow>
                  [Print (''Bad client for '' @ filename f @ '': exception: '' @ str_exn e),
                   Print ''None''])))"
  by (simp add: boot_trace_def boot_client_def identify_def Let_def
      split: import_outcome.splits sum.splits)

lemma boot_player_functional:
  "boot_player f = Some p' \<Longrightarrow> functional p' \<Longrightarrow>
   functional (validate f (new_Player (new_id f)))"
proof -
  assume bp: "boot_player f = Some p'" and fp: "functional p'"
  let ?v = "validate f (new_Player (new_id f))"
  show "functional ?v"
  proof (cases "import_module f")
    case Loaded
    obtain e q where iq: "identify f (?v\<lparr>code := Some (filename f)\<rparr>) = (e, q)"
      by (cases "identify f (?v\<lparr>code := Some (filename f)\<rparr>)")
    from bp fp Loaded iq have "functional q"
      by (auto simp: boot_player_eq Let_def split: if_splits option.splits)
    with iq identify_functional [of f "?v\<lparr>code := Some (filename f)\<rparr>"]
    show ?thesis by simp
  next
    case (Import_failed tb)
    with bp fp show ?thesis
      by (auto simp: boot_player_eq Let_def split: if_splits)
  next
    case (Client_failed tb)
    with bp fp show ?thesis
      by (auto simp: boot_player_eq Let_def split: if_splits)
  qed
qed

lemma sort_clients_set: "sort_clients cs = Inr cs' \<Longrightarrow> set cs' = set cs"
  by (auto simp: sort_clients_def split: if_splits)

lemma boot_clients_set:
  "set (clients (snd (boot cfg files w))) =
   set (clients w) \<union> set (List.map_filter boot_player files)"
  by (auto simp: boot_def Let_def shutdown_clients dest: sort_clients_set
      split: sum.splits if_splits)

text \<open>
  C4: the functional flag only goes from true to false. A tick, and any number of ticks of
  the loop, leave no client functional that was not functional before, position by
  position; \<^verbatim>\<open>pre_tick\<close>, \<^verbatim>\<open>post_tick\<close> and \<^verbatim>\<open>shutdown\<close> leave the clients as
  they are; \<^verbatim>\<open>boot\<close> keeps the records it finds and adds the records it creates, and
  on a record it creates each step after the construction (the two checks of the
  validation, the handshake, the rest of the iteration) can only clear the flag.
\<close>

theorem functional_flag_only_falls:
  "flags_only_fall (clients w) (clients (snd (tick cfg en w))) \<and>
   flags_only_fall (clients w) (clients (snd (run_ticks k cfg en w))) \<and>
   clients (snd (pre_tick cfg w)) = clients w \<and>
   clients (snd (post_tick cfg en w)) = clients w \<and>
   clients (snd (shutdown cfg source w)) = clients w \<and>
   set (clients (snd (boot cfg files w))) =
     set (clients w) \<union> set (List.map_filter boot_player files) \<and>
   (functional (validate f p) \<longrightarrow> functional p) \<and>
   (functional (snd (identify f p)) \<longrightarrow> functional p) \<and>
   (\<forall>p'. boot_player f = Some p' \<longrightarrow> functional p' \<longrightarrow>
      functional (validate f (new_Player (new_id f))))"
proof (intro conjI allI impI)
  show "flags_only_fall (clients w) (clients (snd (tick cfg en w)))"
    by (rule tick_flags)
  show "flags_only_fall (clients w) (clients (snd (run_ticks k cfg en w)))"
    by (rule run_ticks_flags)
  show "clients (snd (pre_tick cfg w)) = clients w"
    by (rule pre_tick_clients)
  show "clients (snd (post_tick cfg en w)) = clients w"
    by (rule post_tick_clients)
  show "clients (snd (shutdown cfg source w)) = clients w"
    by (rule shutdown_clients)
  show "set (clients (snd (boot cfg files w))) =
        set (clients w) \<union> set (List.map_filter boot_player files)"
    by (rule boot_clients_set)
  show "functional p" if "functional (validate f p)"
    using that by (rule validate_functional)
  show "functional p" if "functional (snd (identify f p))"
    using that by (rule identify_functional)
  show "functional (validate f (new_Player (new_id f)))"
    if "boot_player f = Some p'" and "functional p'" for p'
    using that by (rule boot_player_functional)
qed

theorem functional_flag_only_falls_witness:
  "\<not> functional (clients dropped_first ! 0) \<and>
   \<not> functional (clients (snd (run_ticks 2 range_cfg two_tick_env dropped_first)) ! 0) \<and>
   \<not> functional (validate os_file (new_Player ''A'')) \<and>
   \<not> functional (snd (identify slow_file (validate os_file (new_Player ''A''))))"
proof -
  have start: "\<not> functional (clients dropped_first ! 0)"
    by (simp add: dropped_first_def)
  have len: "length (clients dropped_first) = 2"
    by (simp add: dropped_first_def)
  have "flags_only_fall (clients dropped_first)
          (clients (snd (run_ticks 2 range_cfg two_tick_env dropped_first)))"
    using functional_flag_only_falls [of dropped_first range_cfg two_tick_env 2] by blast
  then have after:
    "\<not> functional (clients (snd (run_ticks 2 range_cfg two_tick_env dropped_first)) ! 0)"
    using start len by (auto simp: flags_only_fall_def list_all2_conv_all_nth)
  have v: "\<not> functional (validate os_file (new_Player ''A''))"
    by (simp add: validate_def os_file_def amy_file_def)
  have "functional (snd (identify slow_file (validate os_file (new_Player ''A'')))) \<longrightarrow>
        functional (validate os_file (new_Player ''A''))"
    using functional_flag_only_falls
      [where f = slow_file and p = "validate os_file (new_Player ''A'')"] by blast
  with v have i: "\<not> functional (snd (identify slow_file (validate os_file (new_Player ''A''))))"
    by blast
  from start after v i show ?thesis by blast
qed

subsection \<open>Boot: validation and handshake\<close>


lemma make_threads_skips:
  "\<not> functional p \<Longrightarrow> make_threads tt (cs @ [p] @ cs') = make_threads tt (cs @ cs')"
  by (simp add: make_threads_def)




text \<open>
  C9 as stated (no identity is assigned to a client whose handshake does not produce a
  value within the deadline) fails on the code: the \<^verbatim>\<open>finally\<close> block assigns
  \<^verbatim>\<open>thr.retrieve_value()\<close> whatever the checks found, and the unit keeps running
  between the check and that read. A unit that is still running when the wait of 0.01
  seconds ends and returns before the name is read is marked as timed out and yet gets
  its name.
\<close>

theorem late_name_is_assigned:
  "team_name_unit late_file = Inr (Replies 10500 (Some ''amy'')) \<and>
   comm_is_alive (comm_join (Replies 10500 (Some ''amy'')) 10000) (Replies 10500 (Some ''amy'')) \<and>
   map_option functional (boot_player late_file) = Some False \<and>
   map_option error (boot_player late_file) =
     Some (Some ''Client failed to provide a team name in time.'') \<and>
   map_option team_name (boot_player late_file) = Some (Some ''amy'')"
  by code_simp

lemma validate_team_name: "team_name (validate f p) = team_name p"
  by (simp add: validate_def Let_def split: prod.splits)

lemma no_value_while_running:
  "comm_is_alive t thr \<or> comm_error t' thr \<noteq> None \<Longrightarrow> retrieve_value t thr = None"
  by (cases thr) (auto simp: comm_is_alive_def)

text \<open>
  C9, amended: a client whose identity unit is still running when \<^verbatim>\<open>boot\<close> checks it
  after the wait of 0.01 seconds, or has raised when \<^verbatim>\<open>boot\<close> reads its error, is
  marked non-functional, with the captured error if there is one and with the timeout
  message otherwise. No name is assigned to it when the unit has raised, or is still
  running at the moment \<^verbatim>\<open>boot\<close> reads the name. The case where the unit cannot even
  be built is covered too: the record is not functional, carries an error and has no
  name.
\<close>

theorem failed_handshake_retires_client:
  assumes "has_keyword f" and "\<not> is_dir f" and "import_module f = Loaded"
    and "team_name_unit f = Inr thr \<and>
           (comm_is_alive (alive_read f thr) thr \<or> comm_error (error_read f thr) thr \<noteq> None) \<or>
         team_name_unit f = Inl e"
  shows "\<exists>p. boot_player f = Some p \<and> \<not> functional p \<and>
           error p =
             (case team_name_unit f of
                Inr u \<Rightarrow> (if comm_error (error_read f u) u \<noteq> None
                           then comm_error (error_read f u) u
                           else Some no_team_name_message)
              | Inl x \<Rightarrow> Some (str_exn none_has_no_retrieve_value @ nl @ ''None'')) \<and>
           ((case team_name_unit f of
               Inr u \<Rightarrow> comm_error (error_read f u) u \<noteq> None \<or>
                         comm_is_alive (value_read f u) u
             | Inl x \<Rightarrow> True) \<longrightarrow>
            team_name p = None)"
proof (cases "team_name_unit f")
  case (Inl x)
  with assms(1-3) show ?thesis
    by (simp add: boot_player_eq identify_def Let_def validate_team_name new_Player_def)
next
  case (Inr u)
  with assms(4) have bad:
    "comm_is_alive (alive_read f u) u \<or> comm_error (error_read f u) u \<noteq> None"
    by auto
  have none: "retrieve_value (value_read f u) u = None"
    if "comm_error (error_read f u) u \<noteq> None \<or> comm_is_alive (value_read f u) u"
    using that no_value_while_running [of "value_read f u" u "error_read f u"] by blast
  from assms(1-3) Inr bad none show ?thesis
    by (auto simp: boot_player_eq identify_def Let_def)
qed

theorem failed_handshake_retires_client_witness:
  "\<exists>p. boot_player slow_file = Some p \<and> \<not> functional p \<and> team_name p = None \<and>
       error p = Some ''Client failed to provide a team name in time.''"
proof -
  have k: "has_keyword slow_file" and d: "\<not> is_dir slow_file"
    and l: "import_module slow_file = Loaded"
    by (simp_all add: slow_file_def amy_file_def)
  have a: "comm_is_alive t Silent" for t
    by (simp add: comm_is_alive_def)
  have u: "team_name_unit slow_file = Inr Silent \<and>
             (comm_is_alive (alive_read slow_file Silent) Silent \<or>
              comm_error (error_read slow_file Silent) Silent \<noteq> None) \<or>
           team_name_unit slow_file = Inl IndexError"
    by (simp add: slow_file_def a)
  show ?thesis
    using failed_handshake_retires_client [OF k d l u]
    by (auto simp: slow_file_def no_team_name_message_def a)
qed

subsection \<open>Shutdown\<close>

text \<open>
  C10: under the single-client setting \<^verbatim>\<open>shutdown\<close> reads \<^verbatim>\<open>self.clients[0]\<close>
  whatever the list holds. With no client it raises after the log file was written:
  the results are not written, nothing is printed and the process does not exit there.
\<close>

theorem shutdown_raises_without_clients:
  assumes "SET_NUMBER_OF_CLIENTS_START cfg = Some 1" and "clients w = []"
  shows "shutdown cfg source w = (Raised IndexError, emit w [Write LOGS_FILE Game_logs])"
  using assms by (simp add: shutdown_def controller_arg_def emit_def Let_def)

theorem shutdown_raises_without_clients_witness:
  "shutdown single_cfg (Some ''Client_error'') init_world =
     (Raised IndexError, emit init_world [Write LOGS_FILE Game_logs])"
proof -
  have s: "SET_NUMBER_OF_CLIENTS_START single_cfg = Some 1"
    by (simp add: single_cfg_def)
  have c: "clients init_world = []"
    by (simp add: init_world_def)
  show ?thesis
    by (rule shutdown_raises_without_clients [OF s c])
qed

text \<open>
  C6 (a violated start bound ends in a shutdown with source \<open>Client_error\<close> that
  writes the results, prints the errors, flushes and exits with status 1) fails on the
  code for the spec's own example: one client required, none present. The shutdown
  called by \<^verbatim>\<open>boot\<close> raises at \<^verbatim>\<open>self.clients[0]\<close>; \<^verbatim>\<open>loop\<close> prints the
  exception and runs \<^verbatim>\<open>shutdown()\<close> again, which raises again. The log file is written
  twice, the results file never, and \<^verbatim>\<open>os._exit(1)\<close> is not reached.
\<close>

theorem no_clients_no_results:
  "loop single_cfg empty_env init_world =
     (Raised IndexError,
      \<lparr>clients = [], tick_number = 0,
       events = [Write LOGS_FILE Game_logs,
                 Print ''Exception raised during runtime: list index out of range'',
                 Print ''None'',
                 Write LOGS_FILE Game_logs]\<rparr>)"
  by code_simp

text \<open>
  C5 (the shutdown procedure runs exactly once on every path) fails on the code when the
  controller reports the game over. \<^verbatim>\<open>post_tick\<close> then runs \<^verbatim>\<open>shutdown()\<close>, whose
  branch without a source returns, its \<^verbatim>\<open>os._exit(0)\<close> being commented out (line
  303), whereas the branch with a source ends the process (line 296). Nothing leaves the
  \<^verbatim>\<open>for\<close> loop, so the engine goes on with the next world key, and the
  \<^verbatim>\<open>finally\<close> clause of \<^verbatim>\<open>loop\<close> runs \<^verbatim>\<open>shutdown()\<close> once more. With one
  world key the procedure runs twice; with two it runs three times, and client A is
  given a second turn after the message that the game has successfully ended.
\<close>

theorem shutdown_runs_twice_on_game_over:
  "game_over short_game_env 1 \<and>
   fst (loop range_cfg short_game_env init_world) = Normal \<and>
   shutdown_runs (snd (loop range_cfg short_game_env init_world)) = 2 \<and>
   shutdown_runs (snd (loop range_cfg played_on_env init_world)) = 3 \<and>
   filter (\<lambda>e. e = Start_turn ''A'' \<or> e = Print (nl @ ''Game has successfully ended.''))
     (events (snd (loop range_cfg played_on_env init_world))) =
     [Start_turn ''A'', Print (nl @ ''Game has successfully ended.''),
      Start_turn ''A'', Print (nl @ ''Game has successfully ended.''),
      Print (nl @ ''Game has successfully ended.'')]"
  by code_simp

text \<open>
  The other paths run \<^verbatim>\<open>shutdown\<close> exactly once. The lemmas below count the runs over
  each step of the engine, for a game that no tick reports as over and a client list
  that can be indexed where the single-client setting asks for it.
\<close>

lemma runs_events:
  "shutdown_runs (w\<lparr>events := events w @ es\<rparr>) =
   shutdown_runs w + length (filter (\<lambda>e. e = Write LOGS_FILE Game_logs) es)"
  by (simp add: shutdown_runs_def)

lemma runs_emit:
  "shutdown_runs (emit w es) =
   shutdown_runs w + length (filter (\<lambda>e. e = Write LOGS_FILE Game_logs) es)"
  by (simp add: emit_def runs_events)

lemma runs_clients [simp]: "shutdown_runs (w\<lparr>clients := cs\<rparr>) = shutdown_runs w"
  by (simp add: shutdown_runs_def)

lemma runs_tick_number [simp]: "shutdown_runs (w\<lparr>tick_number := n\<rparr>) = shutdown_runs w"
  by (simp add: shutdown_runs_def)

lemma shutdown_adds_one: "shutdown_runs (snd (shutdown cfg source w)) = shutdown_runs w + 1"
  by (simp add: shutdown_def Let_def runs_emit split: sum.splits)

lemma shutdown_never_exits_without_source: "fst (shutdown cfg None w) \<noteq> Exited n"
  by (simp add: shutdown_def Let_def split: sum.splits)

lemma shutdown_with_source:
  "truthy source \<Longrightarrow> controller_arg cfg (clients w) = Inr a \<Longrightarrow>
   fst (shutdown cfg source w) = Exited 1"
  by (simp add: shutdown_def Let_def emit_def)

lemma indexable_arg: "indexable cfg cs \<Longrightarrow> \<exists>a. controller_arg cfg cs = Inr a"
  by (cases cs) (auto simp: indexable_def controller_arg_def)

lemma indexable_length: "length cs' = length cs \<Longrightarrow> indexable cfg cs' = indexable cfg cs"
  by (cases cs; cases cs') (auto simp: indexable_def)

lemma indexable_set: "set cs' = set cs \<Longrightarrow> indexable cfg cs' = indexable cfg cs"
  by (cases cs; cases cs') (auto simp: indexable_def)

lemma flags_only_fall_length: "flags_only_fall cs cs' \<Longrightarrow> length cs' = length cs"
  by (simp add: flags_only_fall_def list_all2_lengthD)

lemma round_length:
  "length (clients (snd (and_then (and_then (pre_tick cfg w) (tick cfg en))
                            (post_tick cfg en)))) = length (clients w)"
proof -
  let ?r1 = "pre_tick cfg w"
  let ?r2 = "and_then ?r1 (tick cfg en)"
  let ?r3 = "and_then ?r2 (post_tick cfg en)"
  have s1: "flags_only_fall (clients w) (clients (snd ?r1))"
    by (simp add: pre_tick_clients flags_only_fall_refl)
  have s2: "flags_only_fall (clients (snd ?r1)) (clients (snd ?r2))"
    by (rule and_then_flags) (rule tick_flags)
  have s3: "flags_only_fall (clients (snd ?r2)) (clients (snd ?r3))"
    by (rule and_then_flags) (simp add: post_tick_clients flags_only_fall_refl)
  have "flags_only_fall (clients w) (clients (snd ?r3))"
    using s1 s2 s3 by (blast intro: flags_only_fall_trans)
  then show ?thesis by (rule flags_only_fall_length)
qed

lemma once_and_then:
  assumes "once w r" and "\<And>w1. r = (Normal, w1) \<Longrightarrow> once w1 (f w1)"
  shows "once w (and_then r f)"
proof (cases r)
  case (Pair st w1)
  show ?thesis
  proof (cases st)
    case Normal
    with Pair assms(1) have same: "shutdown_runs w1 = shutdown_runs w"
      by (simp add: once_def)
    from Pair Normal assms(2) have "once w1 (f w1)" by simp
    with same have "once w (f w1)"
      by (simp add: once_def split: status.splits)
    with Pair Normal show ?thesis by (simp add: and_then_def)
  next
    case (Raised e)
    with Pair assms(1) show ?thesis by (simp add: and_then_def)
  next
    case (Exited n)
    with Pair assms(1) show ?thesis by (simp add: and_then_def)
  qed
qed

lemma once_shutdown_source:
  assumes "indexable cfg (clients w)"
  shows "once w (shutdown cfg (Some ''Client_error'') w)"
proof -
  obtain a where "controller_arg cfg (clients w) = Inr a"
    using indexable_arg [OF assms] by blast
  then have "fst (shutdown cfg (Some ''Client_error'') w) = Exited 1"
    by (intro shutdown_with_source) simp_all
  then show ?thesis
    by (simp add: once_def shutdown_adds_one)
qed

lemma once_arg:
  "once w (case controller_arg cfg (clients w) of
             Inl e \<Rightarrow> (Raised e, w) | Inr a \<Rightarrow> (Normal, w))"
  by (simp add: once_def split: sum.splits)

lemma once_load: "once w (load en w)"
  by (simp add: load_def once_def)

lemma once_pre_tick: "once w (pre_tick cfg w)"
  by (simp add: pre_tick_def Let_def once_def split: sum.splits)

lemma once_post_tick: "\<not> game_over en (tick_number w) \<Longrightarrow> once w (post_tick cfg en w)"
  by (simp add: post_tick_def Let_def once_def emit_def shutdown_runs_def split: sum.splits)

lemma once_tick:
  assumes "indexable cfg (clients w)"
  shows "once w (tick cfg en w)"
proof -
  let ?thr = "make_threads (take_turn en (tick_number w)) (clients w)"
  let ?s = "launch_time en (tick_number w)"
  let ?t = "join_all (MAX_SECONDS_PER_TURN cfg) ?s ?s ?thr - ?s"
  let ?w1 = "w\<lparr>clients := collect ?t (clients w) ?thr,
               events := events w @
                 map (\<lambda>c. Start_turn (player_id c)) (filter functional (clients w)) @
                 map Print (collect_prints ?t (clients w) ?thr)\<rparr>"
  have same: "shutdown_runs ?w1 = shutdown_runs w"
    by (simp add: shutdown_runs_def filter_empty_conv)
  have "length (clients ?w1) = length (clients w)"
    by (simp add: collect_length make_threads_length)
  then have idx: "indexable cfg (clients ?w1)"
    using assms indexable_length by blast
  have a: "once w (shutdown cfg (Some ''Client_error'') ?w1)"
    using once_shutdown_source [OF idx] same by (simp add: once_def split: status.splits)
  have b: "once w (Normal, ?w1)"
    using same by (simp add: once_def)
  have "once w (and_then
      (if verify_num_clients (filter functional (clients ?w1))
            (SET_NUMBER_OF_CLIENTS_CONTINUE cfg) (MIN_CLIENTS_CONTINUE cfg)
            (MAX_CLIENTS_CONTINUE cfg) \<noteq> None
       then shutdown cfg (Some ''Client_error'') ?w1 else (Normal, ?w1))
      (\<lambda>w2. case controller_arg cfg (clients w2) of
               Inl e \<Rightarrow> (Raised e, w2) | Inr a \<Rightarrow> (Normal, w2)))"
    using a b by (intro once_and_then once_arg) simp
  then show ?thesis
    by (simp add: tick_def Let_def)
qed

lemma boot_trace_no_log: "filter (\<lambda>e. e = Write LOGS_FILE Game_logs) (boot_trace f) = []"
  by (simp add: boot_trace_eq split: import_outcome.splits sum.splits)

lemma boot_traces_no_log:
  "filter (\<lambda>e. e = Write LOGS_FILE Game_logs) (concat (map boot_trace files)) = []"
  by (induction files) (simp_all add: boot_trace_no_log)

lemma once_boot:
  assumes "indexable cfg (clients w @ List.map_filter boot_player files)"
  shows "once w (boot cfg files w)"
proof -
  let ?w1 = "w\<lparr>clients := clients w @ List.map_filter boot_player files,
               events := events w @ concat (map boot_trace files)\<rparr>"
  have same: "shutdown_runs ?w1 = shutdown_runs w"
    by (simp add: shutdown_runs_def boot_traces_no_log)
  have idx: "indexable cfg (clients ?w1)"
    using assms by simp
  have a: "once w (shutdown cfg (Some ''Client_error'') ?w1)"
    using once_shutdown_source [OF idx] same by (simp add: once_def split: status.splits)
  have b: "once w (st, ?w1\<lparr>clients := cs\<rparr>)" if "\<And>m. st \<noteq> Exited m" for st cs
    using that same by (cases st) (auto simp: once_def shutdown_runs_def)
  have c: "once w (st, ?w1)" if "\<And>m. st \<noteq> Exited m" for st
    using that same by (cases st) (auto simp: once_def)
  show ?thesis
    using a b c by (simp add: boot_def Let_def split: sum.splits)
qed

lemma boot_indexable:
  "indexable cfg (clients (snd (boot cfg files w))) =
   indexable cfg (clients w @ List.map_filter boot_player files)"
  by (rule indexable_set) (simp add: boot_clients_set)

lemma once_run_ticks:
  assumes "\<And>n. \<not> game_over en n"
  shows "indexable cfg (clients w) \<Longrightarrow> once w (run_ticks k cfg en w)"
proof (induction k arbitrary: w)
  case 0
  show ?case by (simp add: once_def)
next
  case (Suc k)
  let ?r1 = "pre_tick cfg w"
  let ?r2 = "and_then ?r1 (tick cfg en)"
  let ?r3 = "and_then ?r2 (post_tick cfg en)"
  let ?rest = "\<lambda>w'. if MAX_TICKS cfg \<le> tick_number w' then (Normal, w')
                      else run_ticks k cfg en w'"
  have o1: "once w ?r1"
    by (rule once_pre_tick)
  have o2: "once w ?r2"
  proof (rule once_and_then [OF o1])
    fix w1 assume "?r1 = (Normal, w1)"
    then have "clients w1 = clients w"
      using pre_tick_clients [of cfg w] by simp
    with Suc.prems have "indexable cfg (clients w1)" by simp
    then show "once w1 (tick cfg en w1)" by (rule once_tick)
  qed
  have o3: "once w ?r3"
    by (rule once_and_then [OF o2]) (simp add: once_post_tick assms)
  have "once w (and_then ?r3 ?rest)"
  proof (rule once_and_then [OF o3])
    fix w3 assume r3: "?r3 = (Normal, w3)"
    have "length (clients (snd ?r3)) = length (clients w)"
      by (rule round_length)
    with r3 have "length (clients w3) = length (clients w)" by simp
    with Suc.prems have "indexable cfg (clients w3)"
      using indexable_length by blast
    then have "once w3 (run_ticks k cfg en w3)" by (rule Suc.IH)
    then show "once w3 (?rest w3)" by (simp add: once_def)
  qed
  then show ?case by simp
qed

lemma once_loop_body:
  assumes "\<And>n. \<not> game_over en n"
    and "indexable cfg (clients w @ List.map_filter boot_player (client_files en))"
  shows "once w (loop_body cfg en w)"
proof -
  let ?r1 = "load en w"
  let ?r2 = "and_then ?r1 (boot cfg (client_files en))"
  have o1: "once w ?r1" by (rule once_load)
  have o2: "once w ?r2"
  proof (rule once_and_then [OF o1])
    fix w1 assume "?r1 = (Normal, w1)"
    then have "w1 = w" by (simp add: load_def split: if_splits)
    with assms(2) show "once w1 (boot cfg (client_files en) w1)"
      by (simp add: once_boot)
  qed
  have "once w (and_then ?r2 (run_ticks (world_keys en) cfg en))"
  proof (rule once_and_then [OF o2])
    fix w2 assume r2: "?r2 = (Normal, w2)"
    have "?r1 = (Normal, w)"
      using r2 by (auto simp: load_def and_then_def split: if_splits)
    with r2 have "boot cfg (client_files en) w = (Normal, w2)"
      by (simp add: and_then_def)
    then have "clients w2 = clients (snd (boot cfg (client_files en) w))" by simp
    then have "indexable cfg (clients w2)"
      using assms(2) by (simp add: boot_indexable)
    then show "once w2 (run_ticks (world_keys en) cfg en w2)"
      by (rule once_run_ticks [OF assms(1)])
  qed
  then show ?thesis by (simp add: loop_body_def)
qed

lemma loop_runs_shutdown_once:
  assumes "\<And>n. \<not> game_over en n"
    and "indexable cfg (clients w @ List.map_filter boot_player (client_files en))"
  shows "shutdown_runs (snd (loop cfg en w)) = shutdown_runs w + 1"
proof (cases "loop_body cfg en w")
  case (Pair st w1)
  have o: "once w (st, w1)"
    using once_loop_body [OF assms] Pair by simp
  show ?thesis
  proof (cases st)
    case Normal
    with Pair o show ?thesis
      by (simp add: loop_def shutdown_adds_one once_def)
  next
    case (Raised e)
    with Pair o show ?thesis
      by (simp add: loop_def shutdown_adds_one runs_emit once_def)
  next
    case (Exited n)
    with Pair o show ?thesis
      by (simp add: loop_def once_def)
  qed
qed
end
